theory Spec2Isabelle
  imports Complex_Main
begin

section \<open>The light force simulator of \<^verbatim>\<open>pythonlightforcetravel.py\<close>\<close>

text \<open>
  The program is one class, \<^verbatim>\<open>LightForceSimulator\<close>, with five class attributes
  (the constants), three instance attributes (the parameters), a setter and two
  calculations. Every number in it is a Python \<^verbatim>\<open>float\<close>.

  Numbers are modelled as \<^typ>\<open>real\<close> and arithmetic is exact: rounding, underflow to
  zero, the infinities and NaN of the double format are outside this development. What is
  kept of the float operators is every way they can raise, since a raise changes what a
  call returns: \<^verbatim>\<open>/\<close> raises \<^verbatim>\<open>ZeroDivisionError\<close> on a zero divisor, and
  \<^verbatim>\<open>**\<close> raises \<^verbatim>\<open>ZeroDivisionError\<close> on a zero base with a negative exponent and
  \<^verbatim>\<open>OverflowError\<close> when its result is larger than the largest finite double.
  \<^verbatim>\<open>+\<close> and \<^verbatim>\<open>*\<close> never raise (a product too large for a double is the value
  \<^verbatim>\<open>inf\<close> in Python; the model keeps the exact product).

  The exact values are the values of the doubles, up to rounding, as long as every
  intermediate result is zero or of normal magnitude. So what is proved below about the
  numbers a call returns is proved for states of ordinary magnitude (\<open>ordinary_magnitude\<close>),
  where no step of the two calculations overflows or underflows on doubles; and where
  rounding can make two close results equal, a strict comparison is stated for arguments
  that are further apart than rounding reaches. What compares or copies fields only (the
  setter, the invariant, purity) is stated for all states.
\<close>

subsection \<open>Float operators that can raise\<close>

datatype py_error = ZeroDivisionError | OverflowError | NotAFloat

text \<open>
  \<open>NotAFloat\<close> is not a Python exception: a negative base with a non-integral exponent
  makes \<^verbatim>\<open>**\<close> return a complex number, which has no place among the reals of this
  model. The simulator never reaches that case.
\<close>

text \<open>\<^verbatim>\<open>sys.float_info.max\<close>, the largest finite double, \<^verbatim>\<open>(2 - 2**-52) * 2**1023\<close>.\<close>

definition DBL_MAX :: real where
  "DBL_MAX = (2 ^ 53 - 1) * 2 ^ 971"

text \<open>\<^verbatim>\<open>a / b\<close> on floats.\<close>

definition float_div :: "real \<Rightarrow> real \<Rightarrow> py_error + real" where
  "float_div a b = (if b = 0 then Inl ZeroDivisionError else Inr (a / b))"

text \<open>
  \<^verbatim>\<open>iv ** iw\<close> on floats (an \<^verbatim>\<open>int\<close> exponent is converted to a float first), in the
  order of the interpreter's cases: exponent zero, base zero, negative base, and then the
  power itself with its range check. The check is made here on the exact power; the
  interpreter makes it on the rounded one, which differs only within one rounding step of
  \<open>DBL_MAX\<close>. A power too small for a double is not an error (Python gives 0.0).
\<close>

definition float_pow :: "real \<Rightarrow> real \<Rightarrow> py_error + real" where
  "float_pow iv iw =
     (if iw = 0 then Inr 1
      else if iv = 0 then (if iw < 0 then Inl ZeroDivisionError else Inr 0)
      else if iv < 0 \<and> of_int \<lfloor>iw\<rfloor> \<noteq> iw then Inl NotAFloat
      else (let ix = (if iv < 0
                      then (if even \<lfloor>iw\<rfloor> then 1 else - 1) * ((- iv) powr iw)
                      else iv powr iw)
            in if DBL_MAX < \<bar>ix\<bar> then Inl OverflowError else Inr ix))"

text \<open>
  The builtins \<^verbatim>\<open>max(a, b)\<close> and \<^verbatim>\<open>min(a, b)\<close> keep their first argument unless the
  second is strictly larger (smaller).
\<close>

definition py_max :: "real \<Rightarrow> real \<Rightarrow> real" where
  "py_max a b = (if a < b then b else a)"

definition py_min :: "real \<Rightarrow> real \<Rightarrow> real" where
  "py_min a b = (if b < a then b else a)"

subsection \<open>The simulator object\<close>

text \<open>
  The class attributes are read through \<^verbatim>\<open>self\<close> (\<^verbatim>\<open>self.C\<close>, \<^verbatim>\<open>self.RHO_ATM\<close>, ...),
  so they are fields of the object's state here, next to the three instance attributes;
  that no method writes them is then a theorem and not a convention.
\<close>

record LightForceSimulator =
  C :: real
  RHO_ATM :: real
  K_ENV :: real
  BETA :: real
  A_EFF :: real
  total_intensity_w :: real
  container_volume_m3 :: real
  reflectivity_alpha :: real

text \<open>The class body and \<^verbatim>\<open>__init__\<close>: the object right after construction.\<close>

definition init :: LightForceSimulator where
  "init = \<lparr> C = 299792458, RHO_ATM = 1.225, K_ENV = 1, BETA = 2, A_EFF = 1,
            total_intensity_w = 50000, container_volume_m3 = 10,
            reflectivity_alpha = 0.95 \<rparr>"

definition set_parameters ::
    "real \<Rightarrow> real \<Rightarrow> real \<Rightarrow> LightForceSimulator \<Rightarrow> LightForceSimulator" where
  "set_parameters intensity volume alpha self =
     self \<lparr> total_intensity_w := py_max 0 intensity,
            container_volume_m3 := py_max 0.1 volume,
            reflectivity_alpha := py_min 1 (py_max 0 alpha) \<rparr>"

text \<open>
  The two calculations are methods: each takes the object and gives back what it returns
  or raises, together with the object after the call.
\<close>

definition calculate_relativistic_mass_density ::
    "LightForceSimulator \<Rightarrow> (py_error + real) \<times> LightForceSimulator" where
  "calculate_relativistic_mass_density self =
     (case float_pow (C self) 2 of
        Inl e \<Rightarrow> (Inl e, self)
      | Inr c2 \<Rightarrow>
          (float_div (total_intensity_w self) (container_volume_m3 self * c2), self))"

definition calculate_light_force_thrust ::
    "LightForceSimulator \<Rightarrow> (py_error + real \<times> real \<times> real) \<times> LightForceSimulator" where
  "calculate_light_force_thrust self =
     (case float_div ((1 + reflectivity_alpha self) * total_intensity_w self) (C self) of
        Inl e \<Rightarrow> (Inl e, self)
      | Inr force_rad_base \<Rightarrow>
          (case calculate_relativistic_mass_density self of
             (Inl e, self') \<Rightarrow> (Inl e, self')
           | (Inr rho_rel, self') \<Rightarrow>
               (case (if RHO_ATM self' = 0 then Inr 1
                      else float_div rho_rel (RHO_ATM self')) of
                  Inl e \<Rightarrow> (Inl e, self')
                | Inr density_ratio \<Rightarrow>
                    (case float_pow density_ratio (BETA self') of
                       Inl e \<Rightarrow> (Inl e, self')
                     | Inr p \<Rightarrow>
                         (let density_amplification = K_ENV self' * p;
                              f_thrust = force_rad_base * density_amplification
                          in (Inr (f_thrust, force_rad_base, rho_rel), self'))))))"

subsection \<open>Stored states\<close>

text \<open>
  The states an object can be in: the one after construction, and whatever the three
  methods make of a state already reached, with any arguments.
\<close>

inductive reachable :: "LightForceSimulator \<Rightarrow> bool" where
  reachable_init: "reachable init"
| reachable_set: "reachable s \<Longrightarrow> reachable (set_parameters intensity volume alpha s)"
| reachable_density: "reachable s \<Longrightarrow> reachable (snd (calculate_relativistic_mass_density s))"
| reachable_thrust: "reachable s \<Longrightarrow> reachable (snd (calculate_light_force_thrust s))"

text \<open>The ranges the setter clamps into, and the constants as the class body sets them.\<close>

definition clamp_invariant :: "LightForceSimulator \<Rightarrow> bool" where
  "clamp_invariant s \<longleftrightarrow>
     0 \<le> total_intensity_w s \<and> 0.1 \<le> container_volume_m3 s \<and>
     0 \<le> reflectivity_alpha s \<and> reflectivity_alpha s \<le> 1"

definition constants_fixed :: "LightForceSimulator \<Rightarrow> bool" where
  "constants_fixed s \<longleftrightarrow>
     C s = 299792458 \<and> RHO_ATM s = 1.225 \<and> K_ENV s = 1 \<and> BETA s = 2 \<and> A_EFF s = 1"

text \<open>
  States of ordinary magnitude: the power is zero or between \<^verbatim>\<open>1e-50\<close> and
  \<^verbatim>\<open>1e100\<close>, and the volume is at most \<^verbatim>\<open>1e50\<close>. With the clamped ranges, every
  intermediate result of \<^verbatim>\<open>calculate_light_force_thrust\<close> is then zero or between
  \<^verbatim>\<open>1e-300\<close> and \<^verbatim>\<open>1e260\<close>, well inside the normal doubles.
\<close>

definition ordinary_magnitude :: "LightForceSimulator \<Rightarrow> bool" where
  "ordinary_magnitude s \<longleftrightarrow>
     (total_intensity_w s = 0 \<or> 1 / 10 ^ 50 \<le> total_intensity_w s) \<and>
     total_intensity_w s \<le> 10 ^ 100 \<and> container_volume_m3 s \<le> 10 ^ 50"

section \<open>Properties\<close>

subsection \<open>The operators\<close>

lemma py_max_eq: "py_max a b = max a b"
  by (simp add: py_max_def max_def)

lemma py_min_eq: "py_min a b = min a b"
  by (simp add: py_min_def min_def)

lemma float_div_nonzero: "b \<noteq> 0 \<Longrightarrow> float_div a b = Inr (a / b)"
  by (simp add: float_div_def)

lemma DBL_MAX_pos: "0 < DBL_MAX"
  by (simp add: DBL_MAX_def)

lemma float_pow_C: "float_pow 299792458 2 = Inr (299792458\<^sup>2)"
  by (simp add: float_pow_def DBL_MAX_def)

lemma float_pow_two:
  assumes "0 \<le> x"
  shows "float_pow x 2 = (if DBL_MAX < x\<^sup>2 then Inl OverflowError else Inr (x\<^sup>2))"
proof (cases "x = 0")
  case True
  then show ?thesis
    using DBL_MAX_pos by (simp add: float_pow_def)
next
  case False
  with assms have "0 < x" by simp
  then show ?thesis
    by (simp add: float_pow_def)
qed

subsection \<open>The calculations at a stored state\<close>

lemma density_valid:
  assumes "clamp_invariant s" "constants_fixed s"
  shows "calculate_relativistic_mass_density s =
           (Inr (total_intensity_w s / (container_volume_m3 s * 299792458\<^sup>2)), s)"
proof -
  from assms(1) have "container_volume_m3 s * 299792458\<^sup>2 \<noteq> 0"
    by (simp add: clamp_invariant_def)
  with assms(2) show ?thesis
    by (simp add: calculate_relativistic_mass_density_def constants_fixed_def float_pow_C
        float_div_nonzero)
qed

lemma density_nonneg:
  assumes "clamp_invariant s"
  shows "0 \<le> total_intensity_w s / (container_volume_m3 s * 299792458\<^sup>2)"
  using assms by (simp add: clamp_invariant_def)

lemma thrust_valid:
  assumes "clamp_invariant s" "constants_fixed s"
  shows "calculate_light_force_thrust s =
           (let force_rad_base = (1 + reflectivity_alpha s) * total_intensity_w s / 299792458;
                rho_rel = total_intensity_w s / (container_volume_m3 s * 299792458\<^sup>2)
            in (if DBL_MAX < (rho_rel / 1.225)\<^sup>2 then Inl OverflowError
                else Inr (force_rad_base * (rho_rel / 1.225)\<^sup>2, force_rad_base, rho_rel), s))"
proof -
  let ?rho = "total_intensity_w s / (container_volume_m3 s * 299792458\<^sup>2)"
  let ?frb = "(1 + reflectivity_alpha s) * total_intensity_w s / 299792458"
  from assms(2) have c: "C s = 299792458" "RHO_ATM s = 1.225" "K_ENV s = 1" "BETA s = 2"
    by (simp_all add: constants_fixed_def)
  have frb: "float_div ((1 + reflectivity_alpha s) * total_intensity_w s) 299792458 = Inr ?frb"
    by (simp add: float_div_def)
  have ratio: "(if (1.225::real) = 0 then Inr 1 else float_div ?rho 1.225) = Inr (?rho / 1.225)"
    by (simp add: float_div_def)
  have "0 \<le> ?rho / 1.225"
    using density_nonneg [OF assms(1)] by simp
  then have pow: "float_pow (?rho / 1.225) 2 =
      (if DBL_MAX < (?rho / 1.225)\<^sup>2 then Inl OverflowError else Inr ((?rho / 1.225)\<^sup>2))"
    by (rule float_pow_two)
  have "calculate_light_force_thrust s =
      (case float_pow (?rho / 1.225) 2 of
         Inl e \<Rightarrow> (Inl e, s)
       | Inr p \<Rightarrow> (Inr (?frb * (1 * p), ?frb, ?rho), s))"
    apply (simp only: calculate_light_force_thrust_def density_valid [OF assms] prod.case)
    apply (simp only: c)
    apply (simp only: frb ratio Let_def sum.case)
    done
  then show ?thesis
    by (cases "DBL_MAX < (?rho / 1.225)\<^sup>2") (simp_all only: pow Let_def if_True if_False sum.case mult_1)
qed


lemma density_frame: "snd (calculate_relativistic_mass_density s) = s"
  by (simp add: calculate_relativistic_mass_density_def split: sum.splits)

lemma thrust_frame: "snd (calculate_light_force_thrust s) = s"
proof -
  obtain r where r: "calculate_relativistic_mass_density s = (r, s)"
    using density_frame [of s] by (cases "calculate_relativistic_mass_density s") simp
  show ?thesis
    by (simp add: calculate_light_force_thrust_def r Let_def split: sum.splits)
qed

lemma init_valid: "clamp_invariant init" "constants_fixed init"
  by (simp_all add: init_def clamp_invariant_def constants_fixed_def)

lemma set_parameters_clamped: "clamp_invariant (set_parameters intensity volume alpha s)"
  by (simp add: set_parameters_def clamp_invariant_def py_max_eq py_min_eq)

lemma set_parameters_constants:
  "constants_fixed (set_parameters intensity volume alpha s) = constants_fixed s"
  by (simp add: set_parameters_def constants_fixed_def)

lemma reachable_valid:
  assumes "reachable s"
  shows "clamp_invariant s \<and> constants_fixed s"
  using assms
proof induction
  case reachable_init
  show ?case by (simp add: init_valid)
next
  case (reachable_set s intensity volume alpha)
  then show ?case by (simp add: set_parameters_clamped set_parameters_constants)
next
  case (reachable_density s)
  then show ?case by (simp add: density_frame)
next
  case (reachable_thrust s)
  then show ?case by (simp add: thrust_frame)
qed

lemma valid_reachable:
  assumes "clamp_invariant s" "constants_fixed s"
  shows "reachable s"
proof -
  have "s = set_parameters (total_intensity_w s) (container_volume_m3 s) (reflectivity_alpha s) init"
    using assms
    by (simp add: set_parameters_def init_def clamp_invariant_def constants_fixed_def
        py_max_eq py_min_eq)
  then show ?thesis
    using reachable_set [OF reachable_init] by metis
qed

lemma reachable_iff: "reachable s \<longleftrightarrow> clamp_invariant s \<and> constants_fixed s"
  using reachable_valid valid_reachable by blast

lemma thrust_outcome:
  assumes "clamp_invariant s" "constants_fixed s"
  shows "fst (calculate_light_force_thrust s) =
           (if DBL_MAX < (total_intensity_w s / (container_volume_m3 s * (C s)\<^sup>2) / RHO_ATM s)\<^sup>2
            then Inl OverflowError
            else Inr ((1 + reflectivity_alpha s) * total_intensity_w s / C s *
                        (total_intensity_w s / (container_volume_m3 s * (C s)\<^sup>2) / RHO_ATM s)\<^sup>2,
                      (1 + reflectivity_alpha s) * total_intensity_w s / C s,
                      total_intensity_w s / (container_volume_m3 s * (C s)\<^sup>2)))"
proof -
  from assms(2) have c: "C s = 299792458" "RHO_ATM s = 1.225"
    by (simp_all add: constants_fixed_def)
  show ?thesis
    unfolding thrust_valid [OF assms] c Let_def fst_conv ..
qed

lemma density_ratio_nonneg:
  assumes "clamp_invariant s" "constants_fixed s"
  shows "0 \<le> total_intensity_w s / (container_volume_m3 s * (C s)\<^sup>2) / RHO_ATM s"
  using assms by (simp add: clamp_invariant_def constants_fixed_def)

lemma thrust_returnsI:
  assumes "clamp_invariant s" "constants_fixed s"
    and "(total_intensity_w s / (container_volume_m3 s * 299792458\<^sup>2) / 1.225)\<^sup>2 \<le> DBL_MAX"
  shows "fst (calculate_light_force_thrust s) =
           Inr ((1 + reflectivity_alpha s) * total_intensity_w s / 299792458 *
                  (total_intensity_w s / (container_volume_m3 s * 299792458\<^sup>2) / 1.225)\<^sup>2,
                (1 + reflectivity_alpha s) * total_intensity_w s / 299792458,
                total_intensity_w s / (container_volume_m3 s * 299792458\<^sup>2))"
proof -
  from assms(3)
  have "\<not> DBL_MAX < (total_intensity_w s / (container_volume_m3 s * 299792458\<^sup>2) / 1.225)\<^sup>2"
    by (simp only: not_less)
  then show ?thesis
    by (simp only: thrust_valid [OF assms(1,2)] Let_def fst_conv if_False)
qed

lemma thrust_returnsD:
  assumes "clamp_invariant s" "constants_fixed s"
    and "fst (calculate_light_force_thrust s) = Inr (f_thrust, force_rad_base, rho_rel)"
  shows "(total_intensity_w s / (container_volume_m3 s * 299792458\<^sup>2) / 1.225)\<^sup>2 \<le> DBL_MAX"
    and "f_thrust = force_rad_base *
           (total_intensity_w s / (container_volume_m3 s * 299792458\<^sup>2) / 1.225)\<^sup>2"
    and "force_rad_base = (1 + reflectivity_alpha s) * total_intensity_w s / 299792458"
    and "rho_rel = total_intensity_w s / (container_volume_m3 s * 299792458\<^sup>2)"
proof -
  let ?x = "(total_intensity_w s / (container_volume_m3 s * 299792458\<^sup>2) / 1.225)\<^sup>2"
  have range: "?x \<le> DBL_MAX"
  proof (rule ccontr)
    assume "\<not> ?x \<le> DBL_MAX"
    then have "DBL_MAX < ?x"
      by (simp only: not_le)
    then have "fst (calculate_light_force_thrust s) = Inl OverflowError"
      by (simp only: thrust_valid [OF assms(1,2)] Let_def fst_conv if_True)
    with assms(3) show False
      by simp
  qed
  then show "?x \<le> DBL_MAX" .
  from thrust_returnsI [OF assms(1,2) range] assms(3)
  have "Inr (f_thrust, force_rad_base, rho_rel) =
      (Inr ((1 + reflectivity_alpha s) * total_intensity_w s / 299792458 * ?x,
            (1 + reflectivity_alpha s) * total_intensity_w s / 299792458,
            total_intensity_w s / (container_volume_m3 s * 299792458\<^sup>2))
        :: py_error + real \<times> real \<times> real)"
    by (simp only:)
  then have eqs: "f_thrust = (1 + reflectivity_alpha s) * total_intensity_w s / 299792458 * ?x"
      "force_rad_base = (1 + reflectivity_alpha s) * total_intensity_w s / 299792458"
      "rho_rel = total_intensity_w s / (container_volume_m3 s * 299792458\<^sup>2)"
    by (simp_all only: sum.inject prod.inject)
  from eqs(1,2) show "f_thrust = force_rad_base * ?x"
    by (simp only:)
  from eqs show "force_rad_base = (1 + reflectivity_alpha s) * total_intensity_w s / 299792458"
    and "rho_rel = total_intensity_w s / (container_volume_m3 s * 299792458\<^sup>2)"
    by (simp_all only:)
qed

lemma ratio_mono_power:
  fixes p p' v :: real
  assumes "0 \<le> p" "p \<le> p'" "0 < v"
  shows "(p / (v * 299792458\<^sup>2) / 1.225)\<^sup>2 \<le> (p' / (v * 299792458\<^sup>2) / 1.225)\<^sup>2"
proof (rule power_mono)
  show "p / (v * 299792458\<^sup>2) / 1.225 \<le> p' / (v * 299792458\<^sup>2) / 1.225"
    using assms by (simp add: divide_right_mono)
  show "0 \<le> p / (v * 299792458\<^sup>2) / 1.225"
    using assms by simp
qed

lemma ratio_mono_volume:
  fixes p v v' :: real
  assumes "0 \<le> p" "0 < v" "v \<le> v'"
  shows "(p / (v' * 299792458\<^sup>2) / 1.225)\<^sup>2 \<le> (p / (v * 299792458\<^sup>2) / 1.225)\<^sup>2"
proof (rule power_mono)
  show "p / (v' * 299792458\<^sup>2) / 1.225 \<le> p / (v * 299792458\<^sup>2) / 1.225"
    using assms by (simp add: frac_le)
  show "0 \<le> p / (v' * 299792458\<^sup>2) / 1.225"
    using assms by simp
qed

lemma ratio_pos:
  fixes p v :: real
  assumes "0 < p" "0 < v"
  shows "0 < (p / (v * 299792458\<^sup>2) / 1.225)\<^sup>2"
  using assms by simp

subsection \<open>States made by the setter\<close>

lemma set_parameters_in_range:
  assumes "0 \<le> p" "0.1 \<le> v" "0 \<le> a" "a \<le> 1"
  shows "total_intensity_w (set_parameters p v a init) = p"
    and "container_volume_m3 (set_parameters p v a init) = v"
    and "reflectivity_alpha (set_parameters p v a init) = a"
  using assms by (simp_all add: set_parameters_def py_max_def py_min_def)

lemma set_parameters_valid:
  "clamp_invariant (set_parameters p v a init)" "constants_fixed (set_parameters p v a init)"
  by (simp_all add: set_parameters_clamped set_parameters_constants init_valid)

lemma thrust_set_parameters_returns:
  assumes "0 \<le> p" "0.1 \<le> v" "0 \<le> a" "a \<le> 1"
    and "(p / (v * 299792458\<^sup>2) / 1.225)\<^sup>2 \<le> DBL_MAX"
  shows "fst (calculate_light_force_thrust (set_parameters p v a init)) =
           Inr ((1 + a) * p / 299792458 * (p / (v * 299792458\<^sup>2) / 1.225)\<^sup>2,
                (1 + a) * p / 299792458,
                p / (v * 299792458\<^sup>2))"
  using thrust_returnsI [OF set_parameters_valid, of p v a] assms(5)
  by (simp only: set_parameters_in_range [OF assms(1-4)])

lemma thrust_set_parameters_raises:
  assumes "0 \<le> p" "0.1 \<le> v" "0 \<le> a" "a \<le> 1"
    and "DBL_MAX < (p / (v * 299792458\<^sup>2) / 1.225)\<^sup>2"
  shows "fst (calculate_light_force_thrust (set_parameters p v a init)) = Inl OverflowError"
  using thrust_valid [OF set_parameters_valid, of p v a] assms(5)
  by (simp only: set_parameters_in_range [OF assms(1-4)] Let_def fst_conv if_True)

lemma density_init:
  "fst (calculate_relativistic_mass_density init) = Inr (50000 / (10 * 299792458\<^sup>2))"
proof -
  have "total_intensity_w init = 50000" "container_volume_m3 init = 10"
    by (simp_all add: init_def)
  then show ?thesis
    by (simp only: density_valid [OF init_valid] fst_conv)
qed

lemma density_scenario_e:
  "fst (calculate_relativistic_mass_density (set_parameters 50000 0.05 0.95 init)) =
     Inr (50000 / (0.1 * 299792458\<^sup>2))"
proof -
  have "total_intensity_w (set_parameters 50000 0.05 0.95 init) = 50000"
      "container_volume_m3 (set_parameters 50000 0.05 0.95 init) = 0.1"
    by (simp_all add: set_parameters_def py_max_def)
  then show ?thesis
    by (simp only: density_valid [OF set_parameters_valid] fst_conv)
qed

lemma ratio_bound:
  fixes p v :: real
  assumes "0 \<le> p" "p \<le> 10 ^ 100" "0.1 \<le> v"
  shows "(p / (v * 299792458\<^sup>2) / 1.225)\<^sup>2 \<le> DBL_MAX"
proof -
  have "(p / (v * 299792458\<^sup>2) / 1.225)\<^sup>2 \<le> (p / (0.1 * 299792458\<^sup>2) / 1.225)\<^sup>2"
    using assms(1) _ assms(3) by (rule ratio_mono_volume) simp
  also have "\<dots> \<le> (10 ^ 100 / (0.1 * 299792458\<^sup>2) / 1.225)\<^sup>2"
    using assms(1,2) by (rule ratio_mono_power) simp
  also have "\<dots> \<le> DBL_MAX"
    by (simp add: DBL_MAX_def power_divide)
  finally show ?thesis .
qed

lemma thrust_returns_bounded:
  assumes "clamp_invariant s" "constants_fixed s" "total_intensity_w s \<le> 10 ^ 100"
  shows "fst (calculate_light_force_thrust s) =
           Inr ((1 + reflectivity_alpha s) * total_intensity_w s / 299792458 *
                  (total_intensity_w s / (container_volume_m3 s * 299792458\<^sup>2) / 1.225)\<^sup>2,
                (1 + reflectivity_alpha s) * total_intensity_w s / 299792458,
                total_intensity_w s / (container_volume_m3 s * 299792458\<^sup>2))"
proof (rule thrust_returnsI [OF assms(1,2)])
  from assms(1) have "0 \<le> total_intensity_w s" "0.1 \<le> container_volume_m3 s"
    by (simp_all add: clamp_invariant_def)
  then show "(total_intensity_w s / (container_volume_m3 s * 299792458\<^sup>2) / 1.225)\<^sup>2 \<le> DBL_MAX"
    using assms(3) by (simp only: ratio_bound)
qed

lemma set_parameters_ordinary:
  assumes "0 \<le> p" "0.1 \<le> v" "0 \<le> a" "a \<le> 1"
    and "p = 0 \<or> 1 / 10 ^ 50 \<le> p" "p \<le> 10 ^ 100" "v \<le> 10 ^ 50"
  shows "ordinary_magnitude (set_parameters p v a init)"
  using assms(5-7)
  by (simp only: ordinary_magnitude_def set_parameters_in_range [OF assms(1-4)])

subsection \<open>Exact laws of the thrust\<close>

text \<open>
  Helper facts about the exact arithmetic of the model, for states at which the call
  returns. The properties of the program are derived from them further down, for states
  of ordinary magnitude.
\<close>

lemma thrust_formula_exact:
  assumes "reachable s"
    and "(total_intensity_w s / (container_volume_m3 s * (C s)\<^sup>2) / RHO_ATM s) powr BETA s
           \<le> DBL_MAX"
  shows "\<exists>f_thrust force_rad_base rho_rel.
           fst (calculate_light_force_thrust s) = Inr (f_thrust, force_rad_base, rho_rel) \<and>
           force_rad_base = (1 + reflectivity_alpha s) * total_intensity_w s / C s \<and>
           rho_rel = total_intensity_w s / (container_volume_m3 s * (C s)\<^sup>2) \<and>
           f_thrust = force_rad_base * K_ENV s * (rho_rel / RHO_ATM s) powr BETA s \<and>
           0 \<le> f_thrust \<and> 0 \<le> force_rad_base \<and> 0 \<le> rho_rel"
proof -
  let ?rho = "total_intensity_w s / (container_volume_m3 s * (C s)\<^sup>2)"
  let ?frb = "(1 + reflectivity_alpha s) * total_intensity_w s / C s"
  from assms(1) have valid: "clamp_invariant s" "constants_fixed s"
    by (simp_all add: reachable_valid)
  then have c: "C s = 299792458" "RHO_ATM s = 1.225" "K_ENV s = 1" "BETA s = 2"
    by (simp_all add: constants_fixed_def)
  have ratio: "0 \<le> ?rho / RHO_ATM s"
    by (rule density_ratio_nonneg [OF valid])
  then have sq: "(?rho / RHO_ATM s) powr BETA s = (?rho / RHO_ATM s)\<^sup>2"
    by (simp add: c(4))
  have rho: "0 \<le> ?rho"
    using valid(1) by (simp add: clamp_invariant_def c)
  have frb: "0 \<le> ?frb"
    using valid(1) by (simp add: clamp_invariant_def c)
  from assms(2) have "\<not> DBL_MAX < (?rho / RHO_ATM s)\<^sup>2"
    by (simp only: sq not_less)
  then have "fst (calculate_light_force_thrust s) =
      Inr (?frb * (?rho / RHO_ATM s)\<^sup>2, ?frb, ?rho)"
    by (simp only: thrust_outcome [OF valid] if_False)
  moreover have "?frb * (?rho / RHO_ATM s)\<^sup>2 = ?frb * K_ENV s * (?rho / RHO_ATM s) powr BETA s"
    by (simp only: sq c(3) mult_1_right)
  moreover have "0 \<le> ?frb * (?rho / RHO_ATM s)\<^sup>2"
    using frb by (rule mult_nonneg_nonneg) (rule zero_le_power2)
  ultimately show ?thesis
    using frb rho by (metis (no_types))
qed

lemma thrust_power_strict:
  assumes "clamp_invariant s1" "constants_fixed s1" "clamp_invariant s2" "constants_fixed s2"
    and "container_volume_m3 s1 = container_volume_m3 s2"
    and "reflectivity_alpha s1 = reflectivity_alpha s2"
    and "total_intensity_w s1 < total_intensity_w s2"
    and "fst (calculate_light_force_thrust s2) = Inr (t2, f2, r2)"
  shows "\<exists>t1 f1 r1. fst (calculate_light_force_thrust s1) = Inr (t1, f1, r1) \<and>
           f1 < f2 \<and> t1 < t2"
proof -
  let ?x1 = "(total_intensity_w s1 / (container_volume_m3 s1 * 299792458\<^sup>2) / 1.225)\<^sup>2"
  let ?x2 = "(total_intensity_w s2 / (container_volume_m3 s2 * 299792458\<^sup>2) / 1.225)\<^sup>2"
  let ?f1 = "(1 + reflectivity_alpha s1) * total_intensity_w s1 / 299792458"
  from assms(1,3) have p: "0 \<le> total_intensity_w s1" "0 < total_intensity_w s2"
      and v: "0 < container_volume_m3 s1" "0 < container_volume_m3 s2"
      and a: "0 < 1 + reflectivity_alpha s1"
    using assms(7) by (simp_all add: clamp_invariant_def)
  note at2 = thrust_returnsD [OF assms(3,4,8)]
  have x12: "?x1 \<le> ?x2"
    using ratio_mono_power [of "total_intensity_w s1" "total_intensity_w s2" "container_volume_m3 s1"]
      p(1) assms(7) v(1) by (simp only: assms(5) less_imp_le)
  from x12 at2(1) have "?x1 \<le> DBL_MAX"
    by (rule order_trans)
  then have at1: "fst (calculate_light_force_thrust s1) = Inr (?f1 * ?x1, ?f1, 
      total_intensity_w s1 / (container_volume_m3 s1 * 299792458\<^sup>2))"
    by (rule thrust_returnsI [OF assms(1,2)])
  have f: "?f1 < f2"
    using a assms(7) by (simp add: at2(3) assms(6) [symmetric] divide_strict_right_mono)
  have f1: "0 \<le> ?f1"
    using a p(1) by simp
  have x2: "0 < ?x2"
    using p(2) v(2) by (rule ratio_pos)
  have "?f1 * ?x1 \<le> ?f1 * ?x2"
    using x12 f1 by (rule mult_left_mono)
  also have "\<dots> < f2 * ?x2"
    using f x2 by (rule mult_strict_right_mono)
  finally have "?f1 * ?x1 < t2"
    by (simp only: at2(2))
  with at1 f show ?thesis
    by blast
qed

lemma thrust_reflectivity_strict:
  assumes "clamp_invariant s1" "constants_fixed s1" "clamp_invariant s2" "constants_fixed s2"
    and "total_intensity_w s1 = total_intensity_w s2"
    and "0 < total_intensity_w s1"
    and "container_volume_m3 s1 = container_volume_m3 s2"
    and "reflectivity_alpha s1 < reflectivity_alpha s2"
    and "fst (calculate_light_force_thrust s1) = Inr (t1, f1, r1)"
  shows "\<exists>t2 f2 r2. fst (calculate_light_force_thrust s2) = Inr (t2, f2, r2) \<and>
           f1 < f2 \<and> t1 < t2"
proof -
  let ?x = "(total_intensity_w s1 / (container_volume_m3 s1 * 299792458\<^sup>2) / 1.225)\<^sup>2"
  let ?f2 = "(1 + reflectivity_alpha s2) * total_intensity_w s1 / 299792458"
  from assms(1) have v: "0 < container_volume_m3 s1"
    by (simp add: clamp_invariant_def)
  note at1 = thrust_returnsD [OF assms(1,2,9)]
  from at1(1) have at2: "fst (calculate_light_force_thrust s2) =
      Inr (?f2 * ?x, ?f2, total_intensity_w s1 / (container_volume_m3 s1 * 299792458\<^sup>2))"
    using thrust_returnsI [OF assms(3,4)] by (simp only: assms(5,7) [symmetric])
  have f: "f1 < ?f2"
    using assms(6,8) by (simp add: at1(3) divide_strict_right_mono)
  have "0 < ?x"
    using assms(6) v by (rule ratio_pos)
  with f have "f1 * ?x < ?f2 * ?x"
    by (rule mult_strict_right_mono)
  then have "t1 < ?f2 * ?x"
    by (simp only: at1(2))
  with at2 f show ?thesis
    by blast
qed

lemma thrust_power_volume_exact:
  assumes "clamp_invariant s" "constants_fixed s" "clamp_invariant s'" "constants_fixed s'"
    and "reflectivity_alpha s = reflectivity_alpha s'"
    and "fst (calculate_light_force_thrust s) = Inr (t, f, r)"
    and "fst (calculate_light_force_thrust s') = Inr (t', f', r')"
  shows "(container_volume_m3 s = container_volume_m3 s' \<and>
          total_intensity_w s' = k * total_intensity_w s \<longrightarrow> t' = k ^ 3 * t) \<and>
         (total_intensity_w s = total_intensity_w s' \<and>
          container_volume_m3 s \<le> container_volume_m3 s' \<longrightarrow>
            t' \<le> t \<and> t' * (container_volume_m3 s')\<^sup>2 = t * (container_volume_m3 s)\<^sup>2 \<and>
            (0 < total_intensity_w s \<and> container_volume_m3 s < container_volume_m3 s'
               \<longrightarrow> t' < t))"
proof -
  let ?P = "total_intensity_w s" and ?P' = "total_intensity_w s'"
  let ?V = "container_volume_m3 s" and ?V' = "container_volume_m3 s'"
  let ?a = "reflectivity_alpha s"
  from assms(1,3) have v: "0 < ?V" "0 < ?V'" and p: "0 \<le> ?P" and a: "0 < 1 + ?a"
    by (simp_all add: clamp_invariant_def)
  note at = thrust_returnsD [OF assms(1,2,6)]
  note at' = thrust_returnsD [OF assms(3,4,7)]
  have t: "t = (1 + ?a) * ?P / 299792458 * (?P / (?V * 299792458\<^sup>2) / 1.225)\<^sup>2"
    by (simp only: at(2,3))
  have t': "t' = (1 + ?a) * ?P' / 299792458 * (?P' / (?V' * 299792458\<^sup>2) / 1.225)\<^sup>2"
    by (simp only: at'(2,3) assms(5))
  have cubic: "t' = k ^ 3 * t" if "?V = ?V'" "?P' = k * ?P"
    unfolding t t' that by (simp add: power_divide power_mult_distrib power3_eq_cube power2_eq_square)
  have square: "t' * ?V'\<^sup>2 = t * ?V\<^sup>2" if "?P = ?P'"
    unfolding t t' that [symmetric] using v by (simp add: power_divide power_mult_distrib)
  have falls: "t' \<le> t" if "?P = ?P'" "?V \<le> ?V'"
  proof -
    have "(?P / (?V' * 299792458\<^sup>2) / 1.225)\<^sup>2 \<le> (?P / (?V * 299792458\<^sup>2) / 1.225)\<^sup>2"
      using p v(1) that(2) by (rule ratio_mono_volume)
    moreover have "0 \<le> (1 + ?a) * ?P / 299792458"
      using a p by simp
    ultimately show ?thesis
      unfolding t t' that(1) [symmetric] by (rule mult_left_mono)
  qed
  have strict: "t' < t" if "?P = ?P'" "0 < ?P" "?V < ?V'"
  proof -
    have "?P / (?V' * 299792458\<^sup>2) / 1.225 < ?P / (?V * 299792458\<^sup>2) / 1.225"
      using that(2,3) v by (simp add: frac_less2)
    moreover have "0 \<le> ?P / (?V' * 299792458\<^sup>2) / 1.225"
      using p v by simp
    ultimately have "(?P / (?V' * 299792458\<^sup>2) / 1.225)\<^sup>2 < (?P / (?V * 299792458\<^sup>2) / 1.225)\<^sup>2"
      by (simp add: power_strict_mono)
    moreover have "0 < (1 + ?a) * ?P / 299792458"
      using a that(2) by simp
    ultimately show ?thesis
      unfolding t t' that(1) [symmetric] by (rule mult_strict_left_mono)
  qed
  from cubic square falls strict show ?thesis
    by blast
qed

subsection \<open>The setter\<close>

text \<open>
  C2. For any three real arguments \<open>intensity\<close>, \<open>volume\<close> and \<open>alpha\<close>,
  \<^verbatim>\<open>set_parameters\<close> stores \<open>max 0 intensity\<close> as the power, \<open>max 0.1 volume\<close> as
  the volume and \<open>min 1 (max 0 alpha)\<close> as the reflectivity: the three
  fields are replaced together, every other field of the object is left as it was, and
  no argument is rejected (the setter has no failing path).
\<close>

theorem set_parameters_stores_clamped:
  "set_parameters intensity volume alpha s =
     s \<lparr> total_intensity_w := max 0 intensity,
         container_volume_m3 := max 0.1 volume,
         reflectivity_alpha := min 1 (max 0 alpha) \<rparr>"
  by (simp add: set_parameters_def py_max_eq py_min_eq)

subsection \<open>The invariant of the stored state\<close>

text \<open>
  C4. Every reachable state (the state after construction, with power 50000, volume 10
  and reflectivity 0.95, and every state the methods make of a reachable state, with any
  real arguments to \<^verbatim>\<open>set_parameters\<close>) has a power of at least 0, a volume of at
  least 0.1 and a reflectivity between 0 and 1, and has \<open>C\<close>, \<open>RHO_ATM\<close>, \<open>K_ENV\<close>,
  \<open>BETA\<close> and \<open>A_EFF\<close> as they were at construction.
\<close>

theorem reachable_clamped_constants:
  assumes "reachable s"
  shows "0 \<le> total_intensity_w s \<and> 0.1 \<le> container_volume_m3 s \<and>
         0 \<le> reflectivity_alpha s \<and> reflectivity_alpha s \<le> 1 \<and>
         C s = C init \<and> RHO_ATM s = RHO_ATM init \<and> K_ENV s = K_ENV init \<and>
         BETA s = BETA init \<and> A_EFF s = A_EFF init \<and>
         C init = 299792458 \<and> RHO_ATM init = 1.225 \<and> K_ENV init = 1 \<and>
         BETA init = 2 \<and> A_EFF init = 1 \<and>
         total_intensity_w init = 50000 \<and> container_volume_m3 init = 10 \<and>
         reflectivity_alpha init = 0.95"
proof -
  from assms have "clamp_invariant s" and "constants_fixed s"
    by (simp_all add: reachable_valid)
  then show ?thesis
    by (simp add: clamp_invariant_def constants_fixed_def init_def)
qed


text \<open>A call with all three arguments out of range.\<close>

theorem reachable_clamped_constants_witness:
  "reachable (set_parameters (- 5) 0 7 init) \<and>
   total_intensity_w (set_parameters (- 5) 0 7 init) = 0 \<and>
   container_volume_m3 (set_parameters (- 5) 0 7 init) = 0.1 \<and>
   reflectivity_alpha (set_parameters (- 5) 0 7 init) = 1 \<and>
   C (set_parameters (- 5) 0 7 init) = 299792458"
proof -
  have r: "reachable (set_parameters (- 5) 0 7 init)"
    by (rule reachable_set [OF reachable_init])
  have v: "total_intensity_w (set_parameters (- 5) 0 7 init) = 0 \<and>
      container_volume_m3 (set_parameters (- 5) 0 7 init) = 0.1 \<and>
      reflectivity_alpha (set_parameters (- 5) 0 7 init) = 1"
    by (simp add: set_parameters_def py_max_def py_min_def)
  from reachable_clamped_constants [OF r] r v show ?thesis
    by simp
qed

subsection \<open>Purity\<close>

text \<open>
  C9. Neither calculation changes the object: after \<^verbatim>\<open>calculate_light_force_thrust\<close>
  or \<^verbatim>\<open>calculate_relativistic_mass_density\<close> every parameter and every constant is
  what it was before. So a second call of \<^verbatim>\<open>calculate_light_force_thrust\<close>, made
  right after the first or after a call of the density, gives what the first gave.
\<close>

theorem calculations_pure_deterministic:
  "snd (calculate_relativistic_mass_density s) = s \<and>
   snd (calculate_light_force_thrust s) = s \<and>
   fst (calculate_light_force_thrust (snd (calculate_light_force_thrust s))) =
     fst (calculate_light_force_thrust s) \<and>
   fst (calculate_light_force_thrust (snd (calculate_relativistic_mass_density s))) =
     fst (calculate_light_force_thrust s)"
  by (simp add: density_frame thrust_frame)

subsection \<open>The thrust: when it is returned\<close>

text \<open>
  A stored state at which \<^verbatim>\<open>calculate_light_force_thrust\<close> returns no tuple: with a
  power of \<^verbatim>\<open>1e200\<close> (volume 1, reflectivity 1) the squared density ratio is beyond
  every double, and \<^verbatim>\<open>density_ratio ** self.BETA\<close> raises \<^verbatim>\<open>OverflowError\<close>.
\<close>

theorem thrust_overflow_counterexample:
  "reachable (set_parameters (10 ^ 200) 1 1 init) \<and>
   fst (calculate_light_force_thrust (set_parameters (10 ^ 200) 1 1 init)) = Inl OverflowError"
proof -
  let ?s = "set_parameters (10 ^ 200) 1 1 init"
  have r: "reachable ?s"
    by (rule reachable_set [OF reachable_init])
  then have valid: "clamp_invariant ?s" "constants_fixed ?s"
    by (simp_all add: reachable_valid)
  have fields: "total_intensity_w ?s = 10 ^ 200" "container_volume_m3 ?s = 1"
      "C ?s = 299792458" "RHO_ATM ?s = 1.225"
    by (simp_all add: set_parameters_def init_def py_max_def)
  have "DBL_MAX < (10 ^ 200 / (1 * 299792458\<^sup>2) / 1.225 :: real)\<^sup>2"
    by (simp add: DBL_MAX_def power_divide)
  then have "fst (calculate_light_force_thrust ?s) = Inl OverflowError"
    by (simp only: thrust_outcome [OF valid] fields if_True)
  with r show ?thesis ..
qed

text \<open>
  C1, amended. At every stored state of ordinary magnitude (power zero or between
  \<^verbatim>\<open>1e-50\<close> and \<^verbatim>\<open>1e100\<close>, volume at most \<^verbatim>\<open>1e50\<close>),
  \<^verbatim>\<open>calculate_light_force_thrust\<close> returns the 3-tuple
  \<^verbatim>\<open>(thrust, forceRadBase, rho_rel)\<close> with \<^verbatim>\<open>forceRadBase = (1 + a) * P / C\<close>,
  \<^verbatim>\<open>rho_rel = P / (V * C**2)\<close> and
  \<^verbatim>\<open>thrust = forceRadBase * K_ENV * (rho_rel / RHO_ATM) ** BETA\<close>, and none of the
  three is negative.
\<close>

theorem thrust_formula_ordinary:
  assumes "reachable s" and "ordinary_magnitude s"
  shows "\<exists>f_thrust force_rad_base rho_rel.
           fst (calculate_light_force_thrust s) = Inr (f_thrust, force_rad_base, rho_rel) \<and>
           force_rad_base = (1 + reflectivity_alpha s) * total_intensity_w s / C s \<and>
           rho_rel = total_intensity_w s / (container_volume_m3 s * (C s)\<^sup>2) \<and>
           f_thrust = force_rad_base * K_ENV s * (rho_rel / RHO_ATM s) powr BETA s \<and>
           0 \<le> f_thrust \<and> 0 \<le> force_rad_base \<and> 0 \<le> rho_rel"
proof -
  from assms(1) have valid: "clamp_invariant s" "constants_fixed s"
    by (simp_all add: reachable_valid)
  then have c: "C s = 299792458" "RHO_ATM s = 1.225" "BETA s = 2"
    by (simp_all add: constants_fixed_def)
  from valid(1) assms(2) have "0 \<le> total_intensity_w s" "total_intensity_w s \<le> 10 ^ 100"
      "0.1 \<le> container_volume_m3 s"
    by (simp_all add: clamp_invariant_def ordinary_magnitude_def)
  then have "(total_intensity_w s / (container_volume_m3 s * 299792458\<^sup>2) / 1.225)\<^sup>2 \<le> DBL_MAX"
    by (rule ratio_bound)
  moreover have "0 \<le> total_intensity_w s / (container_volume_m3 s * (C s)\<^sup>2) / RHO_ATM s"
    by (rule density_ratio_nonneg [OF valid])
  ultimately have "(total_intensity_w s / (container_volume_m3 s * (C s)\<^sup>2) / RHO_ATM s)
      powr BETA s \<le> DBL_MAX"
    by (simp only: c powr_numeral)
  with assms(1) show ?thesis
    by (rule thrust_formula_exact)
qed

text \<open>The state after construction is of ordinary magnitude, and the call returns there.\<close>

theorem thrust_formula_ordinary_witness:
  "reachable init \<and> ordinary_magnitude init \<and>
   (\<exists>f_thrust force_rad_base rho_rel.
      fst (calculate_light_force_thrust init) = Inr (f_thrust, force_rad_base, rho_rel) \<and>
      force_rad_base = (1 + 0.95) * 50000 / 299792458 \<and>
      rho_rel = 50000 / (10 * 299792458\<^sup>2) \<and>
      f_thrust = force_rad_base * 1 * (rho_rel / 1.225) powr 2)"
proof -
  have fields: "total_intensity_w init = 50000" "container_volume_m3 init = 10"
      "reflectivity_alpha init = 0.95" "C init = 299792458" "RHO_ATM init = 1.225"
      "K_ENV init = 1" "BETA init = 2"
    by (simp_all add: init_def)
  have ordinary: "ordinary_magnitude init"
    by (simp add: ordinary_magnitude_def fields)
  from thrust_formula_ordinary [OF reachable_init ordinary]
  have "\<exists>f_thrust force_rad_base rho_rel.
      fst (calculate_light_force_thrust init) = Inr (f_thrust, force_rad_base, rho_rel) \<and>
      force_rad_base = (1 + 0.95) * 50000 / 299792458 \<and>
      rho_rel = 50000 / (10 * 299792458\<^sup>2) \<and>
      f_thrust = force_rad_base * 1 * (rho_rel / 1.225) powr 2"
    by (simp only: fields) blast
  with reachable_init ordinary show ?thesis
    by blast
qed




subsection \<open>The thrust: how it grows\<close>

text \<open>
  Two stored powers, 1 and \<^verbatim>\<open>1e250\<close>, with the same volume and reflectivity: at the
  smaller the call returns a thrust, at the larger it raises and returns none.
\<close>

theorem thrust_power_counterexample:
  "total_intensity_w (set_parameters 1 1 0 init) <
     total_intensity_w (set_parameters (10 ^ 250) 1 0 init) \<and>
   fst (calculate_light_force_thrust (set_parameters 1 1 0 init)) =
     Inr (1 / 299792458 * (1 / 299792458\<^sup>2 / 1.225)\<^sup>2, 1 / 299792458, 1 / 299792458\<^sup>2) \<and>
   fst (calculate_light_force_thrust (set_parameters (10 ^ 250) 1 0 init)) = Inl OverflowError"
proof -
  have "total_intensity_w (set_parameters 1 1 0 init) <
      total_intensity_w (set_parameters (10 ^ 250) 1 0 init)"
    by (simp add: set_parameters_in_range)
  moreover have "fst (calculate_light_force_thrust (set_parameters 1 1 0 init)) =
      Inr (1 / 299792458 * (1 / 299792458\<^sup>2 / 1.225)\<^sup>2, 1 / 299792458, 1 / 299792458\<^sup>2)"
    using thrust_set_parameters_returns [of 1 1 0]
    by (simp add: DBL_MAX_def power_divide)
  moreover have "fst (calculate_light_force_thrust (set_parameters (10 ^ 250) 1 0 init)) =
      Inl OverflowError"
    using thrust_set_parameters_raises [of "10 ^ 250" 1 0]
    by (simp add: DBL_MAX_def power_divide)
  ultimately show ?thesis
    by blast
qed

text \<open>
  C6, amended. Take two states of ordinary magnitude within the clamped ranges, with the
  same volume and the same reflectivity, and powers \<open>P1 < P2\<close>. Both calls return, and
  neither \<^verbatim>\<open>forceRadBase\<close> nor \<^verbatim>\<open>thrust\<close> is smaller at \<open>P2\<close> than at \<open>P1\<close>; both
  are strictly larger at \<open>P2\<close> when \<open>P2\<close> is at least \<^verbatim>\<open>(1 + 1e-9) * P1\<close>.
\<close>

theorem thrust_grows_with_power:
  assumes "clamp_invariant s1" "constants_fixed s1" "clamp_invariant s2" "constants_fixed s2"
    and "ordinary_magnitude s1" "ordinary_magnitude s2"
    and "container_volume_m3 s1 = container_volume_m3 s2"
    and "reflectivity_alpha s1 = reflectivity_alpha s2"
    and "total_intensity_w s1 < total_intensity_w s2"
  shows "\<exists>t1 f1 r1 t2 f2 r2.
           fst (calculate_light_force_thrust s1) = Inr (t1, f1, r1) \<and>
           fst (calculate_light_force_thrust s2) = Inr (t2, f2, r2) \<and>
           f1 \<le> f2 \<and> t1 \<le> t2 \<and>
           ((1 + 1 / 10 ^ 9) * total_intensity_w s1 \<le> total_intensity_w s2 \<longrightarrow>
              f1 < f2 \<and> t1 < t2)"
proof -
  from assms(6) have "total_intensity_w s2 \<le> 10 ^ 100"
    by (simp add: ordinary_magnitude_def)
  then obtain t2 f2 r2 where at2: "fst (calculate_light_force_thrust s2) = Inr (t2, f2, r2)"
    using thrust_returns_bounded [OF assms(3,4)] by blast
  from thrust_power_strict [OF assms(1-4) assms(7-9) at2]
  obtain t1 f1 r1 where "fst (calculate_light_force_thrust s1) = Inr (t1, f1, r1)"
      and "f1 < f2" and "t1 < t2"
    by blast
  with at2 show ?thesis
    by (metis less_imp_le)
qed

text \<open>Powers 1 and 2 at volume 1 and reflectivity 0.\<close>

theorem thrust_grows_with_power_witness:
  "ordinary_magnitude (set_parameters 1 1 0 init) \<and>
   ordinary_magnitude (set_parameters 2 1 0 init) \<and>
   (1 + 1 / 10 ^ 9) * total_intensity_w (set_parameters 1 1 0 init)
     \<le> total_intensity_w (set_parameters 2 1 0 init) \<and>
   (\<exists>t1 f1 r1 t2 f2 r2.
      fst (calculate_light_force_thrust (set_parameters 1 1 0 init)) = Inr (t1, f1, r1) \<and>
      fst (calculate_light_force_thrust (set_parameters 2 1 0 init)) = Inr (t2, f2, r2) \<and>
      f1 < f2 \<and> t1 < t2)"
proof -
  let ?s1 = "set_parameters 1 1 0 init" and ?s2 = "set_parameters 2 1 0 init"
  have ordinary: "ordinary_magnitude ?s1" "ordinary_magnitude ?s2"
    by (simp_all add: set_parameters_ordinary)
  have fields: "container_volume_m3 ?s1 = container_volume_m3 ?s2"
      "reflectivity_alpha ?s1 = reflectivity_alpha ?s2"
      "total_intensity_w ?s1 < total_intensity_w ?s2"
    by (simp_all add: set_parameters_in_range)
  have margin: "(1 + 1 / 10 ^ 9) * total_intensity_w ?s1 \<le> total_intensity_w ?s2"
    by (simp add: set_parameters_in_range)
  from thrust_grows_with_power
    [OF set_parameters_valid set_parameters_valid ordinary fields] margin ordinary
  show ?thesis
    by blast
qed

text \<open>
  Two stored reflectivities, 0 and 0.5, at power \<^verbatim>\<open>1e200\<close> and volume 1: the call
  raises at both, and no thrust is returned to compare.
\<close>

theorem thrust_reflectivity_counterexample:
  "reflectivity_alpha (set_parameters (10 ^ 200) 1 0 init) <
     reflectivity_alpha (set_parameters (10 ^ 200) 1 0.5 init) \<and>
   fst (calculate_light_force_thrust (set_parameters (10 ^ 200) 1 0 init)) = Inl OverflowError \<and>
   fst (calculate_light_force_thrust (set_parameters (10 ^ 200) 1 0.5 init)) = Inl OverflowError"
proof -
  have "reflectivity_alpha (set_parameters (10 ^ 200) 1 0 init) <
      reflectivity_alpha (set_parameters (10 ^ 200) 1 0.5 init)"
    by (simp add: set_parameters_in_range)
  moreover have "fst (calculate_light_force_thrust (set_parameters (10 ^ 200) 1 0 init)) =
      Inl OverflowError"
    using thrust_set_parameters_raises [of "10 ^ 200" 1 0]
    by (simp add: DBL_MAX_def power_divide)
  moreover have "fst (calculate_light_force_thrust (set_parameters (10 ^ 200) 1 0.5 init)) =
      Inl OverflowError"
    using thrust_set_parameters_raises [of "10 ^ 200" 1 "0.5"]
    by (simp add: DBL_MAX_def power_divide)
  ultimately show ?thesis
    by blast
qed

text \<open>
  C10, amended. Take two states of ordinary magnitude within the clamped ranges, with the
  same power \<open>P > 0\<close> and the same volume, and reflectivities \<open>a1 < a2\<close>. Both calls
  return, and neither \<^verbatim>\<open>forceRadBase\<close> nor \<^verbatim>\<open>thrust\<close> is smaller at \<open>a2\<close> than at
  \<open>a1\<close>; both are strictly larger at \<open>a2\<close> when \<open>a2\<close> is at least \<^verbatim>\<open>a1 + 1e-9\<close>.
\<close>

theorem thrust_grows_with_reflectivity:
  assumes "clamp_invariant s1" "constants_fixed s1" "clamp_invariant s2" "constants_fixed s2"
    and "ordinary_magnitude s1" "ordinary_magnitude s2"
    and "total_intensity_w s1 = total_intensity_w s2"
    and "0 < total_intensity_w s1"
    and "container_volume_m3 s1 = container_volume_m3 s2"
    and "reflectivity_alpha s1 < reflectivity_alpha s2"
  shows "\<exists>t1 f1 r1 t2 f2 r2.
           fst (calculate_light_force_thrust s1) = Inr (t1, f1, r1) \<and>
           fst (calculate_light_force_thrust s2) = Inr (t2, f2, r2) \<and>
           f1 \<le> f2 \<and> t1 \<le> t2 \<and>
           (reflectivity_alpha s1 + 1 / 10 ^ 9 \<le> reflectivity_alpha s2 \<longrightarrow>
              f1 < f2 \<and> t1 < t2)"
proof -
  from assms(5) have "total_intensity_w s1 \<le> 10 ^ 100"
    by (simp add: ordinary_magnitude_def)
  then obtain t1 f1 r1 where at1: "fst (calculate_light_force_thrust s1) = Inr (t1, f1, r1)"
    using thrust_returns_bounded [OF assms(1,2)] by blast
  from thrust_reflectivity_strict [OF assms(1-4) assms(7-10) at1]
  obtain t2 f2 r2 where "fst (calculate_light_force_thrust s2) = Inr (t2, f2, r2)"
      and "f1 < f2" and "t1 < t2"
    by blast
  with at1 show ?thesis
    by (metis less_imp_le)
qed

text \<open>Reflectivities 0 and 1 at power 1 and volume 1.\<close>

theorem thrust_grows_with_reflectivity_witness:
  "ordinary_magnitude (set_parameters 1 1 0 init) \<and>
   ordinary_magnitude (set_parameters 1 1 1 init) \<and>
   0 < total_intensity_w (set_parameters 1 1 0 init) \<and>
   reflectivity_alpha (set_parameters 1 1 0 init) + 1 / 10 ^ 9
     \<le> reflectivity_alpha (set_parameters 1 1 1 init) \<and>
   (\<exists>t1 f1 r1 t2 f2 r2.
      fst (calculate_light_force_thrust (set_parameters 1 1 0 init)) = Inr (t1, f1, r1) \<and>
      fst (calculate_light_force_thrust (set_parameters 1 1 1 init)) = Inr (t2, f2, r2) \<and>
      f1 < f2 \<and> t1 < t2)"
proof -
  let ?s1 = "set_parameters 1 1 0 init" and ?s2 = "set_parameters 1 1 1 init"
  have ordinary: "ordinary_magnitude ?s1" "ordinary_magnitude ?s2"
    by (simp_all add: set_parameters_ordinary)
  have fields: "total_intensity_w ?s1 = total_intensity_w ?s2" "0 < total_intensity_w ?s1"
      "container_volume_m3 ?s1 = container_volume_m3 ?s2"
      "reflectivity_alpha ?s1 < reflectivity_alpha ?s2"
    by (simp_all add: set_parameters_in_range)
  have margin: "reflectivity_alpha ?s1 + 1 / 10 ^ 9 \<le> reflectivity_alpha ?s2"
    by (simp add: set_parameters_in_range)
  from thrust_grows_with_reflectivity
    [OF set_parameters_valid set_parameters_valid ordinary fields] margin ordinary fields(2)
  show ?thesis
    by blast
qed

text \<open>
  Doubling the power from 1 to 2 (volume 1, reflectivity 0) multiplies the thrust by 8,
  which is not the \<open>2\<^sup>2 = 4\<close> of a quadratic growth.
\<close>

theorem thrust_quadratic_counterexample:
  "fst (calculate_light_force_thrust (set_parameters 1 1 0 init)) =
     Inr (1 / 299792458 * (1 / 299792458\<^sup>2 / 1.225)\<^sup>2, 1 / 299792458, 1 / 299792458\<^sup>2) \<and>
   fst (calculate_light_force_thrust (set_parameters 2 1 0 init)) =
     Inr (8 * (1 / 299792458 * (1 / 299792458\<^sup>2 / 1.225)\<^sup>2), 2 / 299792458,
          2 / 299792458\<^sup>2) \<and>
   8 * (1 / 299792458 * (1 / 299792458\<^sup>2 / 1.225)\<^sup>2) \<noteq>
     2\<^sup>2 * (1 / 299792458 * (1 / 299792458\<^sup>2 / 1.225)\<^sup>2 :: real)"
proof -
  have "fst (calculate_light_force_thrust (set_parameters 1 1 0 init)) =
      Inr (1 / 299792458 * (1 / 299792458\<^sup>2 / 1.225)\<^sup>2, 1 / 299792458, 1 / 299792458\<^sup>2)"
    using thrust_set_parameters_returns [of 1 1 0]
    by (simp add: DBL_MAX_def power_divide)
  moreover have "fst (calculate_light_force_thrust (set_parameters 2 1 0 init)) =
      Inr (8 * (1 / 299792458 * (1 / 299792458\<^sup>2 / 1.225)\<^sup>2), 2 / 299792458,
           2 / 299792458\<^sup>2)"
    using thrust_set_parameters_returns [of 2 1 0]
    by (simp add: DBL_MAX_def power_divide)
  moreover have "8 * (1 / 299792458 * (1 / 299792458\<^sup>2 / 1.225)\<^sup>2) \<noteq>
      2\<^sup>2 * (1 / 299792458 * (1 / 299792458\<^sup>2 / 1.225)\<^sup>2 :: real)"
    by simp
  ultimately show ?thesis
    by blast
qed

text \<open>
  C7, amended. Take two states of ordinary magnitude within the clamped ranges, with the
  same reflectivity. Both calls return. With the volume the same, the thrust is cubic in
  the power: a power \<open>k\<close> times as large gives a thrust \<open>k\<^sup>3\<close> times as large. With the
  power the same, the thrust at the larger volume is not larger, and it is strictly smaller
  when the power is positive and the larger volume is at least \<^verbatim>\<open>1 + 1e-9\<close> times the
  smaller.
\<close>

theorem thrust_cubic_in_power:
  assumes "clamp_invariant s" "constants_fixed s" "clamp_invariant s'" "constants_fixed s'"
    and "ordinary_magnitude s" "ordinary_magnitude s'"
    and "reflectivity_alpha s = reflectivity_alpha s'"
  shows "\<exists>t f r t' f' r'.
           fst (calculate_light_force_thrust s) = Inr (t, f, r) \<and>
           fst (calculate_light_force_thrust s') = Inr (t', f', r') \<and>
           (container_volume_m3 s = container_volume_m3 s' \<and>
            total_intensity_w s' = k * total_intensity_w s \<longrightarrow> t' = k ^ 3 * t) \<and>
           (total_intensity_w s = total_intensity_w s' \<and>
            container_volume_m3 s \<le> container_volume_m3 s' \<longrightarrow>
              t' \<le> t \<and>
              (0 < total_intensity_w s \<and>
               (1 + 1 / 10 ^ 9) * container_volume_m3 s \<le> container_volume_m3 s'
                 \<longrightarrow> t' < t))"
proof -
  from assms(5,6) have "total_intensity_w s \<le> 10 ^ 100" "total_intensity_w s' \<le> 10 ^ 100"
    by (simp_all add: ordinary_magnitude_def)
  then obtain t f r t' f' r' where at: "fst (calculate_light_force_thrust s) = Inr (t, f, r)"
      and at': "fst (calculate_light_force_thrust s') = Inr (t', f', r')"
    using thrust_returns_bounded [OF assms(1,2)] thrust_returns_bounded [OF assms(3,4)] by blast
  note exact = thrust_power_volume_exact [OF assms(1-4) assms(7) at at', of k]
  from assms(1) have v: "0 < container_volume_m3 s"
    by (simp add: clamp_invariant_def)
  have margin: "container_volume_m3 s < container_volume_m3 s'"
    if "(1 + 1 / 10 ^ 9) * container_volume_m3 s \<le> container_volume_m3 s'"
  proof -
    have "container_volume_m3 s < (1 + 1 / 10 ^ 9) * container_volume_m3 s"
      using v by simp
    from this that show ?thesis
      by (rule less_le_trans)
  qed
  from exact margin at at' show ?thesis
    by blast
qed

text \<open>Power 1 against power 2, and volume 1 against volume 2.\<close>

theorem thrust_cubic_in_power_witness:
  "ordinary_magnitude (set_parameters 1 1 0 init) \<and>
   ordinary_magnitude (set_parameters 2 1 0 init) \<and>
   ordinary_magnitude (set_parameters 1 2 0 init) \<and>
   (\<exists>t f r t' f' r'.
      fst (calculate_light_force_thrust (set_parameters 1 1 0 init)) = Inr (t, f, r) \<and>
      fst (calculate_light_force_thrust (set_parameters 2 1 0 init)) = Inr (t', f', r') \<and>
      t' = 2 ^ 3 * t) \<and>
   (\<exists>t f r t' f' r'.
      fst (calculate_light_force_thrust (set_parameters 1 1 0 init)) = Inr (t, f, r) \<and>
      fst (calculate_light_force_thrust (set_parameters 1 2 0 init)) = Inr (t', f', r') \<and>
      t' < t)"
proof -
  let ?s = "set_parameters 1 1 0 init"
  let ?p = "set_parameters 2 1 0 init"
  let ?v = "set_parameters 1 2 0 init"
  have ordinary: "ordinary_magnitude ?s" "ordinary_magnitude ?p" "ordinary_magnitude ?v"
    by (simp_all add: set_parameters_ordinary)
  have a_p: "reflectivity_alpha ?s = reflectivity_alpha ?p"
    and a_v: "reflectivity_alpha ?s = reflectivity_alpha ?v"
    by (simp_all add: set_parameters_in_range)
  have power: "container_volume_m3 ?s = container_volume_m3 ?p \<and>
      total_intensity_w ?p = 2 * total_intensity_w ?s"
    by (simp add: set_parameters_in_range)
  have volume: "total_intensity_w ?s = total_intensity_w ?v \<and>
      container_volume_m3 ?s \<le> container_volume_m3 ?v"
    and strict: "0 < total_intensity_w ?s \<and>
      (1 + 1 / 10 ^ 9) * container_volume_m3 ?s \<le> container_volume_m3 ?v"
    by (simp_all add: set_parameters_in_range)
  from thrust_cubic_in_power
    [OF set_parameters_valid set_parameters_valid ordinary(1,2) a_p, of 2] power
  have "\<exists>t f r t' f' r'.
      fst (calculate_light_force_thrust ?s) = Inr (t, f, r) \<and>
      fst (calculate_light_force_thrust ?p) = Inr (t', f', r') \<and> t' = 2 ^ 3 * t"
    by blast
  moreover from thrust_cubic_in_power
    [OF set_parameters_valid set_parameters_valid ordinary(1,3) a_v, of 1] volume strict
  have "\<exists>t f r t' f' r'.
      fst (calculate_light_force_thrust ?s) = Inr (t, f, r) \<and>
      fst (calculate_light_force_thrust ?v) = Inr (t', f', r') \<and> t' < t"
    by blast
  ultimately show ?thesis
    using ordinary by blast
qed

subsection \<open>Scenario E\<close>

text \<open>
  After \<^verbatim>\<open>set_parameters(50000, 0.05, 0.95)\<close> the stored volume is 0.1, and the density
  is not twice the density of the defaults.
\<close>

theorem scenario_e_not_double_counterexample:
  "container_volume_m3 (set_parameters 50000 0.05 0.95 init) = 0.1 \<and>
   fst (calculate_relativistic_mass_density init) = Inr (50000 / (10 * 299792458\<^sup>2)) \<and>
   fst (calculate_relativistic_mass_density (set_parameters 50000 0.05 0.95 init)) \<noteq>
     Inr (2 * (50000 / (10 * 299792458\<^sup>2)))"
proof -
  have "container_volume_m3 (set_parameters 50000 0.05 0.95 init) = 0.1"
    by (simp add: set_parameters_def py_max_def)
  moreover have "fst (calculate_relativistic_mass_density (set_parameters 50000 0.05 0.95 init)) \<noteq>
      Inr (2 * (50000 / (10 * 299792458\<^sup>2)))"
    unfolding density_scenario_e by simp
  ultimately show ?thesis
    using density_init by blast
qed

text \<open>
  C8, amended. After \<^verbatim>\<open>set_parameters(50000, 0.05, 0.95)\<close> the stored volume is 0.1,
  the density returned is \<^verbatim>\<open>50000 / (0.1 * C**2)\<close>, and that is a hundred times the
  density \<^verbatim>\<open>50000 / (10 * C**2)\<close> of the defaults: the volume went from 10 to 0.1.
\<close>

theorem scenario_e_hundredfold:
  "container_volume_m3 (set_parameters 50000 0.05 0.95 init) = 0.1 \<and>
   fst (calculate_relativistic_mass_density init) = Inr (50000 / (10 * 299792458\<^sup>2)) \<and>
   fst (calculate_relativistic_mass_density (set_parameters 50000 0.05 0.95 init)) =
     Inr (50000 / (0.1 * 299792458\<^sup>2)) \<and>
   fst (calculate_relativistic_mass_density (set_parameters 50000 0.05 0.95 init)) =
     Inr (100 * (50000 / (10 * 299792458\<^sup>2)))"
proof -
  have "container_volume_m3 (set_parameters 50000 0.05 0.95 init) = 0.1"
    by (simp add: set_parameters_def py_max_def)
  moreover have "fst (calculate_relativistic_mass_density (set_parameters 50000 0.05 0.95 init)) =
      Inr (100 * (50000 / (10 * 299792458\<^sup>2)))"
    unfolding density_scenario_e by simp
  ultimately show ?thesis
    using density_init density_scenario_e by blast
qed

end
